theory Spec2Isabelle
  imports Complex_Main "HOL-Library.Word" "HOL-Library.Log_Nat"
begin

unbundle bit_operations_syntax

section \<open>Machine types\<close>

type_synonym u8 = "8 word"
type_synonym u16 = "16 word"

section \<open>Frame synchronizer (K230_UART.c)\<close>

text \<open>
  The globals of K230_UART.c and K230_UART.h that \<open>UART_0_rx_DataFrame\<close> reads and
  writes. \<open>rx_order\<close> is the 9-byte array; a well-formed state has a list of length 9.
\<close>

record rx_state =
  rx_data :: u8
  rx_order :: "u8 list"
  last_data :: u8
  pt :: u8
  target_x :: u16
  target_y :: u16

text \<open>The static initialisers: every global starts at zero.\<close>

definition rx_init :: rx_state where
  "rx_init = \<lparr>rx_data = 0, rx_order = [0, 0, 0, 0, 0, 0, 0, 0, 0],
              last_data = 0, pt = 0, target_x = 0, target_y = 0\<rparr>"

text \<open>
  A store \<open>rx_order[pt] = rx_data\<close> with \<open>pt\<close> outside the array is undefined
  behaviour in C; the model reports it as a fault instead of guessing.
\<close>

datatype fault = Out_Of_Bounds

text \<open>
  One call of \<open>UART_0_rx_DataFrame\<close>; the byte returned by
  \<open>DL_UART_receiveData\<close> is the argument \<open>b\<close>.

  The checksum test adds four \<open>uint8_t\<close> values. C promotes them to \<open>int\<close>, so
  the sum is not reduced modulo 256 before it is compared with \<open>rx_order[6]\<close>;
  the model compares the integer values (\<open>uint\<close>).
  \<open>pt++; pt %= 9\<close> on a \<open>uint8_t\<close> is \<open>(pt + 1) mod 9\<close> on an 8-bit word.
\<close>

definition UART_0_rx_DataFrame :: "u8 \<Rightarrow> rx_state \<Rightarrow> fault + rx_state" where
  "UART_0_rx_DataFrame b s0 =
    (let s = s0\<lparr>rx_data := b\<rparr> in
     if last_data s = rx_data s \<and> rx_data s = 0xAA then
       Inr (s\<lparr>pt := 2,
               rx_order := (rx_order s)[0 := 0xAA, 1 := 0xAA],
               last_data := rx_data s\<rparr>)
     else if last_data s = rx_data s \<and> rx_data s = 0xFF then
       (if uint (rx_order s ! 2) + uint (rx_order s ! 3)
             + uint (rx_order s ! 4) + uint (rx_order s ! 5) = uint (rx_order s ! 6)
        then Inr (s\<lparr>target_x := push_bit 8 (ucast (rx_order s ! 2)) OR ucast (rx_order s ! 3),
                     target_y := push_bit 8 (ucast (rx_order s ! 4)) OR ucast (rx_order s ! 5),
                     last_data := rx_data s\<rparr>)
        else Inr (s\<lparr>last_data := rx_data s\<rparr>))
     else if unat (pt s) < 9 then
       Inr (s\<lparr>rx_order := (rx_order s)[unat (pt s) := rx_data s],
               pt := (pt s + 1) mod 9,
               last_data := rx_data s\<rparr>)
     else Inl Out_Of_Bounds)"

text \<open>The receive interrupt fires once per byte: a stream is processed left to right.\<close>

fun rx_stream :: "u8 list \<Rightarrow> rx_state \<Rightarrow> fault + rx_state" where
  "rx_stream [] s = Inr s"
| "rx_stream (b # bs) s =
     (case UART_0_rx_DataFrame b s of
        Inl e \<Rightarrow> Inl e
      | Inr s' \<Rightarrow> rx_stream bs s')"

text \<open>Well-formed states: the array has its 9 cells and the write index is inside it.\<close>

definition rx_wf :: "rx_state \<Rightarrow> bool" where
  "rx_wf s \<longleftrightarrow> length (rx_order s) = 9 \<and> unat (pt s) < 9"

text \<open>The 16-bit coordinate built at the commit: \<open>((uint16_t)hi << 8) | lo\<close>.\<close>

definition coordinate :: "u8 \<Rightarrow> u8 \<Rightarrow> u16" where
  "coordinate hi lo = push_bit 8 (ucast hi) OR ucast lo"

text \<open>What the control tick would read after a run: the published target, if the run did not fault.\<close>

definition committed :: "fault + rx_state \<Rightarrow> (u16 \<times> u16) option" where
  "committed r = (case r of Inl e \<Rightarrow> None | Inr s \<Rightarrow> Some (target_x s, target_y s))"

text \<open>The byte stream of one coordinate frame, as the sensor sends it.\<close>

definition coord_frame :: "u8 \<Rightarrow> u8 \<Rightarrow> u8 \<Rightarrow> u8 \<Rightarrow> u8 \<Rightarrow> u8 list" where
  "coord_frame xh xl yh yl chk = [0xAA, 0xAA, xh, xl, yh, yl, chk, 0xFF, 0xFF]"

text \<open>
  The two marker values. A byte equal to its predecessor and equal to a marker is never
  stored by \<open>UART_0_rx_DataFrame\<close>: it takes the sync or the terminator branch.
  \<open>marker_free prev bs\<close> says that no byte of \<open>bs\<close> repeats a marker byte right
  before it (\<open>prev\<close> is the byte received before \<open>bs\<close>).
\<close>

definition marker :: "u8 \<Rightarrow> bool" where
  "marker b \<longleftrightarrow> b = 0xAA \<or> b = 0xFF"

fun marker_free :: "u8 \<Rightarrow> u8 list \<Rightarrow> bool" where
  "marker_free prev [] = True"
| "marker_free prev (b # bs) = ((prev \<noteq> b \<or> \<not> marker b) \<and> marker_free b bs)"

section \<open>Serial transport\<close>

text \<open>
  The serial line as the driver functions see it: \<open>rx\<close> is the list of the bytes
  the peer will deliver, in order, and \<open>tx\<close> the list of the bytes transmitted so
  far. The record is extensible, so a caller-supplied handler may keep state of its own
  next to the line. Waiting for \<open>DL_UART_isBusy\<close> to clear and
  \<open>mspm0_delay_ms\<close> change nothing in this state.
\<close>

record uart =
  rx :: "u8 list"
  tx :: "u8 list"

text \<open>
  Modelled from the spec: \<open>DL_UART_Main_transmitData\<close> belongs to the vendor driver
  library; the repository holds its declaration and, in mspm0_hal.c, a placeholder body
  that does nothing. It is the transport capability \<open>transmit(byte)\<close>: the byte is
  appended to what was sent.
\<close>

definition DL_UART_Main_transmitData :: "u8 \<Rightarrow> 'a uart_scheme \<Rightarrow> 'a uart_scheme" where
  "DL_UART_Main_transmitData b u = u\<lparr>tx := tx u @ [b]\<rparr>"

text \<open>
  Modelled from the spec: \<open>DL_UART_Main_receiveDataBlocking\<close> belongs to the vendor
  driver library; the repository holds its declaration and, in mspm0_hal.c, a
  placeholder body that returns 0 at once (a line of zero bytes without end). It is the
  transport capability \<open>receive_blocking() -> byte\<close>: it takes the next byte of the
  line, and on a line that delivers nothing more it never returns (\<open>None\<close>).
\<close>

definition DL_UART_Main_receiveDataBlocking ::
    "'a uart_scheme \<Rightarrow> (u8 \<times> 'a uart_scheme) option" where
  "DL_UART_Main_receiveDataBlocking u =
     (case rx u of [] \<Rightarrow> None | b # bs \<Rightarrow> Some (b, u\<lparr>rx := bs\<rparr>))"

text \<open>The constants of K230_UART.h.\<close>

definition SELF_CHECK_CMD :: u8 where "SELF_CHECK_CMD = 0x1A"
definition STOP_CMD :: u8 where "STOP_CMD = 0x1C"
definition TIME_OUT :: nat where "TIME_OUT = 0xFF"
definition END1 :: u8 where "END1 = 0x01"
definition END2 :: u8 where "END2 = 0xFE"
definition END3 :: u8 where "END3 = 0xFF"

section \<open>Initialization handshake (K230_Init)\<close>

text \<open>
  The loop \<open>while (data != 0x1B) { if (time++ >= TIME_OUT) return 0; data = receive(); }\<close>
  with its two locals as arguments; the result is the value returned by \<open>K230_Init\<close>
  (1 when the loop is left normally). The test reads \<open>time\<close> before the increment,
  and \<open>time\<close> is a \<open>uint8_t\<close>. Before the loop \<open>K230_Init\<close> arms the
  receive interrupt (\<open>NVIC_ClearPendingIRQ\<close>, \<open>NVIC_EnableIRQ\<close>), which does
  not touch the line, and sends the self-check command.
\<close>

function K230_Init_loop ::
    "u8 \<Rightarrow> u8 \<Rightarrow> 'a uart_scheme \<Rightarrow> (u8 \<times> 'a uart_scheme) option" where
  "K230_Init_loop data time u =
     (if data \<noteq> 0x1B then
        (if unat time \<ge> TIME_OUT then Some (0, u)
         else (case DL_UART_Main_receiveDataBlocking u of
                 None \<Rightarrow> None
               | Some (d, u') \<Rightarrow> K230_Init_loop d (time + 1) u'))
      else Some (1, u))"
  by pat_completeness auto
termination
proof (relation "measure (\<lambda>(data, time, u). length (rx u))")
  show "wf (measure (\<lambda>(data, time, u). length (rx u)))" by simp
next
  fix data time :: u8 and u :: "'a uart_scheme" and x2 x y
  assume "DL_UART_Main_receiveDataBlocking u = Some x2" "(x, y) = x2"
  then have "length (rx y) < length (rx u)"
    by (cases "rx u") (auto simp: DL_UART_Main_receiveDataBlocking_def)
  then show "((x, time + 1, y), data, time, u) \<in> measure (\<lambda>(data, time, u). length (rx u))"
    by simp
qed

declare K230_Init_loop.simps [simp del]

definition K230_Init :: "'a uart_scheme \<Rightarrow> (u8 \<times> 'a uart_scheme) option" where
  "K230_Init u = K230_Init_loop 0 0 (DL_UART_Main_transmitData SELF_CHECK_CMD u)"

section \<open>Command/response exchange (K230_cmd)\<close>

text \<open>
  The inner loop of \<open>K230_cmd\<close>: the 3-byte window \<open>last_last_temp\<close>,
  \<open>last_temp\<close>, \<open>temp\<close> and the \<open>uint8_t\<close> index \<open>i\<close> into the local
  array \<open>data[128]\<close>. It returns the array and the line when the window holds
  END1 END2 END3. The store \<open>data[i++] = temp\<close> beyond the 128 cells is undefined
  behaviour (a fault); a receive on a silent line never returns (\<open>None\<close>).
\<close>

function K230_cmd_segment ::
    "u8 \<Rightarrow> u8 \<Rightarrow> u8 \<Rightarrow> u8 \<Rightarrow> u8 list \<Rightarrow> 'a uart_scheme
       \<Rightarrow> (fault + u8 list \<times> 'a uart_scheme) option" where
  "K230_cmd_segment temp last_temp last_last_temp i data u =
     (if \<not> (temp = END3 \<and> last_temp = END2 \<and> last_last_temp = END1) then
        (if unat i < 128 then
           (case DL_UART_Main_receiveDataBlocking u of
              None \<Rightarrow> None
            | Some (t, u') \<Rightarrow>
                K230_cmd_segment t temp last_temp (i + 1) (data[unat i := temp]) u')
         else Some (Inl Out_Of_Bounds))
      else Some (Inr (data, u)))"
  by pat_completeness auto
termination
proof (relation "measure (\<lambda>(temp, last_temp, last_last_temp, i, data, u). length (rx u))")
  show "wf (measure (\<lambda>(temp, last_temp, last_last_temp, i, data, u). length (rx u)))"
    by simp
next
  fix temp last_temp last_last_temp i :: u8 and data :: "u8 list"
    and u :: "'a uart_scheme" and x2 x y
  assume "DL_UART_Main_receiveDataBlocking u = Some x2" "(x, y) = x2"
  then have "length (rx y) < length (rx u)"
    by (cases "rx u") (auto simp: DL_UART_Main_receiveDataBlocking_def)
  then show "((x, temp, last_temp, i + 1, data[unat i := temp], y),
              temp, last_temp, last_last_temp, i, data, u)
             \<in> measure (\<lambda>(temp, last_temp, last_last_temp, i, data, u). length (rx u))"
    by simp
qed

declare K230_cmd_segment.simps [simp del]

text \<open>
  The caller-supplied handler \<open>uint8_t (*func)(uint8_t*)\<close>: it is given the array,
  may read and change it, may use the serial line and state of its own, and returns the
  continuation flag. \<open>None\<close>: the handler does not return.
\<close>

type_synonym 'a handler = "u8 list \<Rightarrow> 'a uart_scheme \<Rightarrow> (u8 \<times> u8 list \<times> 'a uart_scheme) option"

text \<open>
  The outer loop \<open>while (loop_flag)\<close>. It has no bound in the source, so the model is
  a partial function: \<open>None\<close> stands for a run that never returns.
\<close>

partial_function (option) K230_cmd_loop ::
    "'a handler \<Rightarrow> u8 \<Rightarrow> u8 list \<Rightarrow> 'a uart_scheme
       \<Rightarrow> (fault + u8 list \<times> 'a uart_scheme) option" where
  "K230_cmd_loop func loop_flag data u =
     (if loop_flag \<noteq> 0 then
        (case DL_UART_Main_receiveDataBlocking u of
           None \<Rightarrow> None
         | Some (ack, u1) \<Rightarrow>
        (case DL_UART_Main_receiveDataBlocking u1 of
           None \<Rightarrow> None
         | Some (temp, u2) \<Rightarrow>
        (case K230_cmd_segment temp 0 0 0 data u2 of
           None \<Rightarrow> None
         | Some (Inl e) \<Rightarrow> Some (Inl e)
         | Some (Inr (data', u3)) \<Rightarrow>
        (case func data' u3 of
           None \<Rightarrow> None
         | Some (loop_flag', data'', u4) \<Rightarrow> K230_cmd_loop func loop_flag' data'' u4))))
      else Some (Inr (data, u)))"

declare K230_cmd_loop.simps [code]

text \<open>
  \<open>K230_cmd\<close>. The argument \<open>data0\<close> is what the uninitialised local array
  happens to hold on entry.
\<close>

definition K230_cmd ::
    "u8 \<Rightarrow> 'a handler \<Rightarrow> u8 list \<Rightarrow> 'a uart_scheme \<Rightarrow> (fault + 'a uart_scheme) option" where
  "K230_cmd cmd func data0 u =
     (case K230_cmd_loop func 1 data0 (DL_UART_Main_transmitData cmd u) of
        None \<Rightarrow> None
      | Some (Inl e) \<Rightarrow> Some (Inl e)
      | Some (Inr (data, u')) \<Rightarrow> Some (Inr (DL_UART_Main_transmitData STOP_CMD u')))"

subsection \<open>The exchange as the specification words it\<close>

text \<open>
  A segment is delimited by the first occurrence of the terminator:
  \<open>no_terminator bs\<close> says that END1 END2 END3 does not occur in \<open>bs\<close>.
  \<open>ends_END12 bs\<close> says that \<open>bs\<close> ends with END1 END2.
  The array after a segment: the bytes stored, then the cells they did not reach.
\<close>

fun no_terminator :: "u8 list \<Rightarrow> bool" where
  "no_terminator (a # b # c # bs) =
     (\<not> (a = END1 \<and> b = END2 \<and> c = END3) \<and> no_terminator (b # c # bs))"
| "no_terminator bs = True"

fun ends_END12 :: "u8 list \<Rightarrow> bool" where
  "ends_END12 [a, b] = (a = END1 \<and> b = END2)"
| "ends_END12 (a # b # c # bs) = ends_END12 (b # c # bs)"
| "ends_END12 bs = False"

definition fill_buffer :: "u8 list \<Rightarrow> u8 list \<Rightarrow> u8 list" where
  "fill_buffer bs data = bs @ drop (length bs) data"

text \<open>
  The exchange of section 4.3 of the specification, one rule per outcome of the handler.
  Each step discards one byte (the acknowledgment slot), takes the bytes up to the first
  terminator as one segment (the payload followed by END1 END2 is in the array; END3 is
  not stored), and invokes the handler once on the array. A zero flag ends the exchange;
  a nonzero flag continues it with the next segment.
\<close>

inductive K230_exchange ::
    "'a handler \<Rightarrow> u8 list \<Rightarrow> 'a uart_scheme \<Rightarrow> u8 list \<Rightarrow> 'a uart_scheme \<Rightarrow> bool"
    for func :: "'a handler" where
  last_segment:
    "rx u = ack # seg @ [END1, END2, END3] @ rest \<Longrightarrow>
     no_terminator (seg @ [END1, END2]) \<Longrightarrow> length seg + 2 \<le> 128 \<Longrightarrow>
     func (fill_buffer (seg @ [END1, END2]) data) (u\<lparr>rx := rest\<rparr>) = Some (0, data', u') \<Longrightarrow>
     K230_exchange func data u data' u'"
| next_segment:
    "rx u = ack # seg @ [END1, END2, END3] @ rest \<Longrightarrow>
     no_terminator (seg @ [END1, END2]) \<Longrightarrow> length seg + 2 \<le> 128 \<Longrightarrow>
     func (fill_buffer (seg @ [END1, END2]) data) (u\<lparr>rx := rest\<rparr>) = Some (flag, data', u') \<Longrightarrow>
     flag \<noteq> 0 \<Longrightarrow> length data' = 128 \<Longrightarrow>
     K230_exchange func data' u' data'' u'' \<Longrightarrow>
     K230_exchange func data u data'' u''"

code_pred K230_exchange .

section \<open>Single-precision values\<close>

text \<open>
  The C type \<open>float\<close> of servo.c is IEEE 754 binary32, every operation rounded to
  nearest, ties to even. A value is a finite real, an infinity or NaN. The sign of a
  zero is not kept: the modelled code can tell the two zeros apart only by dividing by
  one, and its single divisor, \<open>max_angle - min_angle\<close>, gives NaN for a zero
  dividend whatever the sign.
\<close>

datatype f32 = Fin real | PInf | NInf | NaN

text \<open>Rounding to an integer, halves to the even neighbour.\<close>

definition round_half_even :: "real \<Rightarrow> int" where
  "round_half_even y =
     (let f = \<lfloor>y\<rfloor>; d = y - of_int f
      in if d < 1 / 2 then f
         else if 1 / 2 < d then f + 1
         else if even f then f else f + 1)"

text \<open>
  Rounding a real to binary32. In units of \<open>2 ^ -149\<close> (the smallest subnormal) the
  magnitude is \<open>y\<close>; a significand has 24 bits, so the last kept bit has weight
  \<open>2 ^ s\<close> with \<open>s\<close> the number of bits of \<open>y\<close> beyond 24 (none for subnormals,
  at most 253 for the top binade); a result of \<open>2 ^ 128\<close> or more is an infinity.
\<close>

definition round32 :: "real \<Rightarrow> f32" where
  "round32 x =
     (let y = \<bar>x\<bar> * 2 ^ 149;
          s = nat (min 253 (max 0 (bitlen \<lfloor>y\<rfloor> - 24)));
          r = of_int (round_half_even (y / 2 ^ s)) * 2 ^ s / 2 ^ 149
      in if 2 ^ 128 \<le> r then (if x < 0 then NInf else PInf)
         else Fin (if x < 0 then - r else r))"

text \<open>The finite reals that are binary32 values: rounding leaves them as they are.\<close>

definition representable :: "real \<Rightarrow> bool" where
  "representable x \<longleftrightarrow> round32 x = Fin x"

definition signed_inf :: "bool \<Rightarrow> f32" where
  "signed_inf negative = (if negative then NInf else PInf)"

fun fneg :: "f32 \<Rightarrow> f32" where
  "fneg (Fin a) = Fin (- a)"
| "fneg PInf = NInf"
| "fneg NInf = PInf"
| "fneg NaN = NaN"

fun fadd :: "f32 \<Rightarrow> f32 \<Rightarrow> f32" where
  "fadd (Fin a) (Fin b) = round32 (a + b)"
| "fadd NaN y = NaN"
| "fadd x NaN = NaN"
| "fadd PInf NInf = NaN"
| "fadd NInf PInf = NaN"
| "fadd PInf y = PInf"
| "fadd x PInf = PInf"
| "fadd NInf y = NInf"
| "fadd x NInf = NInf"

definition fsub :: "f32 \<Rightarrow> f32 \<Rightarrow> f32" where
  "fsub x y = fadd x (fneg y)"

fun fmul :: "f32 \<Rightarrow> f32 \<Rightarrow> f32" where
  "fmul (Fin a) (Fin b) = round32 (a * b)"
| "fmul NaN y = NaN"
| "fmul x NaN = NaN"
| "fmul (Fin a) PInf = (if a = 0 then NaN else signed_inf (a < 0))"
| "fmul (Fin a) NInf = (if a = 0 then NaN else signed_inf (0 < a))"
| "fmul PInf (Fin b) = (if b = 0 then NaN else signed_inf (b < 0))"
| "fmul NInf (Fin b) = (if b = 0 then NaN else signed_inf (0 < b))"
| "fmul PInf PInf = PInf"
| "fmul NInf NInf = PInf"
| "fmul PInf NInf = NInf"
| "fmul NInf PInf = NInf"

fun fdiv :: "f32 \<Rightarrow> f32 \<Rightarrow> f32" where
  "fdiv (Fin a) (Fin b) =
     (if b = 0 then (if a = 0 then NaN else signed_inf (a < 0)) else round32 (a / b))"
| "fdiv NaN y = NaN"
| "fdiv x NaN = NaN"
| "fdiv (Fin a) PInf = Fin 0"
| "fdiv (Fin a) NInf = Fin 0"
| "fdiv PInf (Fin b) = signed_inf (b < 0)"
| "fdiv NInf (Fin b) = signed_inf (\<not> b < 0)"
| "fdiv PInf y = NaN"
| "fdiv NInf y = NaN"


text \<open>The comparisons \<open><\<close>, \<open>>\<close> and \<open><=\<close>: false as soon as an operand is NaN.\<close>

fun flt :: "f32 \<Rightarrow> f32 \<Rightarrow> bool" where
  "flt (Fin a) (Fin b) = (a < b)"
| "flt NaN y = False"
| "flt x NaN = False"
| "flt x NInf = False"
| "flt PInf y = False"
| "flt NInf y = True"
| "flt x PInf = True"

definition fgt :: "f32 \<Rightarrow> f32 \<Rightarrow> bool" where
  "fgt x y = flt y x"


text \<open>The conversion of an \<open>int\<close> operand to \<open>float\<close>.\<close>

definition int_to_float :: "int \<Rightarrow> f32" where
  "int_to_float n = round32 (of_int n)"

text \<open>
  The cast \<open>(uint16_t) x\<close> of a floating value drops the fraction (rounds towards
  zero); it is undefined in C when the result does not fit 16 bits, and for an infinity
  or NaN: \<open>None\<close>.
\<close>

fun float_to_uint16 :: "f32 \<Rightarrow> u16 option" where
  "float_to_uint16 (Fin x) =
     (let t = (if 0 \<le> x then \<lfloor>x\<rfloor> else \<lceil>x\<rceil>)
      in if 0 \<le> t \<and> t < 65536 then Some (word_of_int t) else None)"
| "float_to_uint16 x = None"

section \<open>Servo driver (servo.c, servo.h)\<close>

subsection \<open>Calibration constants of servo.h\<close>

text \<open>The four angles are binary32 values as they stand (9, 171, 13.5 and 256.5).\<close>

definition SERVO1_MIN_ANGLE :: f32 where "SERVO1_MIN_ANGLE = Fin 9"
definition SERVO1_MAX_ANGLE :: f32 where "SERVO1_MAX_ANGLE = Fin 171"
definition SERVO2_MIN_ANGLE :: f32 where "SERVO2_MIN_ANGLE = Fin (27 / 2)"
definition SERVO2_MAX_ANGLE :: f32 where "SERVO2_MAX_ANGLE = Fin (513 / 2)"
definition SERVO_PWM_MIN :: int where "SERVO_PWM_MIN = 24"
definition SERVO_PWM_MAX :: int where "SERVO_PWM_MAX = 96"

subsection \<open>Angle to duty\<close>

definition Clamp_Angle :: "f32 \<Rightarrow> f32 \<Rightarrow> f32 \<Rightarrow> f32" where
  "Clamp_Angle angle min_angle max_angle =
     (if flt angle min_angle then min_angle
      else if fgt angle max_angle then max_angle
      else angle)"

text \<open>
  \<open>Angle_To_PWM\<close>: the clamp, then
  \<open>SERVO_PWM_MIN + (angle - min_angle) * (SERVO_PWM_MAX - SERVO_PWM_MIN) / (max_angle - min_angle)\<close>
  evaluated from left to right in single precision (the two \<open>int\<close> operands are
  converted), then the cast of \<open>pwm + 0.5f\<close>.
\<close>

definition Angle_To_PWM :: "f32 \<Rightarrow> f32 \<Rightarrow> f32 \<Rightarrow> u16 option" where
  "Angle_To_PWM angle0 min_angle max_angle =
     (let angle = Clamp_Angle angle0 min_angle max_angle;
          pwm = fadd (int_to_float SERVO_PWM_MIN)
                  (fdiv (fmul (fsub angle min_angle)
                              (int_to_float (SERVO_PWM_MAX - SERVO_PWM_MIN)))
                        (fsub max_angle min_angle))
      in float_to_uint16 (fadd pwm (Fin (1 / 2))))"

subsection \<open>Duty targets and the timer\<close>

text \<open>
  The two globals of servo.c and what the timer \<open>TIMA1\<close> has been told: the list of
  the writes to its capture/compare channels, oldest first.
\<close>

datatype cc_index = DL_TIMER_CC_0_INDEX | DL_TIMER_CC_1_INDEX

record servo_state =
  Servo_Target1 :: u16
  Servo_Target2 :: u16
  timer_writes :: "(cc_index \<times> u16) list"

text \<open>Both targets are initialised to 0; nothing has been written yet.\<close>

definition servo_init :: servo_state where
  "servo_init = \<lparr>Servo_Target1 = 0, Servo_Target2 = 0, timer_writes = []\<rparr>"

text \<open>
  Modelled from the spec: \<open>DL_Timer_setCaptureCompareValue\<close> belongs to the vendor
  driver library, which is not part of the repository; it is the hardware
  duty-cycle-write capability per axis: the write is recorded with its channel.
\<close>

definition DL_Timer_setCaptureCompareValue :: "u16 \<Rightarrow> cc_index \<Rightarrow> servo_state \<Rightarrow> servo_state" where
  "DL_Timer_setCaptureCompareValue v idx s = s\<lparr>timer_writes := timer_writes s @ [(idx, v)]\<rparr>"

definition Servo_Limitation :: "servo_state \<Rightarrow> servo_state" where
  "Servo_Limitation s0 =
     (let Amplitude_H = 96; Amplitude_L = 24;
          s1 = (if Servo_Target1 s0 < Amplitude_L then s0\<lparr>Servo_Target1 := Amplitude_L\<rparr> else s0);
          s2 = (if Servo_Target1 s1 > Amplitude_H then s1\<lparr>Servo_Target1 := Amplitude_H\<rparr> else s1);
          s3 = (if Servo_Target2 s2 < Amplitude_L then s2\<lparr>Servo_Target2 := Amplitude_L\<rparr> else s2);
          s4 = (if Servo_Target2 s3 > Amplitude_H then s3\<lparr>Servo_Target2 := Amplitude_H\<rparr> else s3)
      in s4)"

text \<open>
  \<open>Set_Servo_Angle\<close> in its two parts, in the order of the source: first the
  \<open>if\<close>/\<open>else if\<close> that converts the angle, stores the target and writes the timer
  (\<open>Set_Servo_Angle_drive\<close>), then the call of \<open>Servo_Limitation\<close>.
\<close>

definition Set_Servo_Angle_drive :: "u8 \<Rightarrow> f32 \<Rightarrow> servo_state \<Rightarrow> servo_state option" where
  "Set_Servo_Angle_drive servo_num angle s =
     (if servo_num = 1 then
        (case Angle_To_PWM angle SERVO1_MIN_ANGLE SERVO1_MAX_ANGLE of
           None \<Rightarrow> None
         | Some PWM_value \<Rightarrow>
             Some (DL_Timer_setCaptureCompareValue PWM_value DL_TIMER_CC_0_INDEX
                     (s\<lparr>Servo_Target1 := PWM_value\<rparr>)))
      else if servo_num = 2 then
        (case Angle_To_PWM angle SERVO2_MIN_ANGLE SERVO2_MAX_ANGLE of
           None \<Rightarrow> None
         | Some PWM_value \<Rightarrow>
             Some (DL_Timer_setCaptureCompareValue PWM_value DL_TIMER_CC_1_INDEX
                     (s\<lparr>Servo_Target2 := PWM_value\<rparr>)))
      else Some s)"

definition Set_Servo_Angle :: "u8 \<Rightarrow> f32 \<Rightarrow> servo_state \<Rightarrow> servo_state option" where
  "Set_Servo_Angle servo_num angle s =
     map_option Servo_Limitation (Set_Servo_Angle_drive servo_num angle s)"

subsection \<open>PID controller\<close>

text \<open>The structure \<open>PID_Controller\<close>, with the type of its nine fields left open.\<close>

record 'a PID_Controller =
  Kp :: 'a
  Ki :: 'a
  Kd :: 'a
  error :: 'a
  error_last :: 'a
  integral :: 'a
  "output" :: 'a
  output_max :: 'a
  output_min :: 'a




subsection \<open>The controller as the specification words it\<close>

text \<open>
  \<open>clamp x lo hi\<close> brings \<open>x\<close> into the interval from \<open>lo\<close> to \<open>hi\<close>. The
  specification's controller: error, clamped integral, step derivative, clamped output.
\<close>

definition clamp :: "real \<Rightarrow> real \<Rightarrow> real \<Rightarrow> real" where
  "clamp x lo hi = max lo (min x hi)"



section \<open>Frame synchronizer: properties\<close>

subsection \<open>Single steps\<close>

lemma rx_stream_append:
  "rx_stream (xs @ ys) s =
     (case rx_stream xs s of Inl e \<Rightarrow> Inl e | Inr s' \<Rightarrow> rx_stream ys s')"
  by (induction xs arbitrary: s) (auto split: sum.splits)

lemma rx_step_sync:
  "last_data s = 0xAA \<Longrightarrow>
   UART_0_rx_DataFrame 0xAA s =
     Inr (s\<lparr>rx_data := 0xAA, pt := 2,
             rx_order := (rx_order s)[0 := 0xAA, 1 := 0xAA], last_data := 0xAA\<rparr>)"
  by (simp add: UART_0_rx_DataFrame_def)

lemma rx_step_store:
  "last_data s \<noteq> b \<or> \<not> marker b \<Longrightarrow> unat (pt s) < 9 \<Longrightarrow>
   UART_0_rx_DataFrame b s =
     Inr (s\<lparr>rx_data := b, rx_order := (rx_order s)[unat (pt s) := b],
             pt := (pt s + 1) mod 9, last_data := b\<rparr>)"
  by (auto simp: UART_0_rx_DataFrame_def marker_def Let_def)

subsection \<open>The write index stays inside the buffer\<close>

lemma rx_step_wf:
  "rx_wf s \<Longrightarrow> \<exists>s'. UART_0_rx_DataFrame b s = Inr s' \<and> rx_wf s'"
  by (auto simp: UART_0_rx_DataFrame_def rx_wf_def Let_def unat_mod)

lemma rx_stream_wf:
  "rx_wf s \<Longrightarrow> \<exists>s'. rx_stream bs s = Inr s' \<and> rx_wf s'"
proof (induction bs arbitrary: s)
  case Nil
  then show ?case by simp
next
  case (Cons b bs)
  from rx_step_wf [OF Cons.prems, of b]
  obtain s1 where s1: "UART_0_rx_DataFrame b s = Inr s1" "rx_wf s1" by blast
  from Cons.IH [OF s1(2)] s1(1) show ?case by simp
qed

lemma rx_init_wf: "rx_wf rx_init"
  by (simp add: rx_wf_def rx_init_def)

text \<open>
  Claim C9. Starting from the initial state, after any sequence of received bytes the
  call has never stored outside the 9-byte buffer (the run does not fault) and the write
  index \<open>pt\<close> is below 9. Nine stored bytes bring \<open>pt\<close> back to 0: it wraps, it does
  not grow.
\<close>

theorem pt_in_range:
  "(\<exists>s. rx_stream bs rx_init = Inr s \<and> unat (pt s) < 9 \<and> length (rx_order s) = 9)
   \<and> map_sum id pt (rx_stream [1, 2, 3, 4, 5, 6, 7, 8, 9] rx_init) = Inr 0"
proof
  from rx_stream_wf [OF rx_init_wf, of bs]
  show "\<exists>s. rx_stream bs rx_init = Inr s \<and> unat (pt s) < 9 \<and> length (rx_order s) = 9"
    by (auto simp: rx_wf_def)
next
  show "map_sum id pt (rx_stream [1, 2, 3, 4, 5, 6, 7, 8, 9] rx_init) = Inr 0"
    by (simp add: UART_0_rx_DataFrame_def rx_init_def)
qed

subsection \<open>A terminator pair on the untouched buffer\<close>

text \<open>
  Claim C10. With the buffer still all zeros (no frame byte ever received), two
  consecutive 0xFF bytes publish the coordinate (0, 0), whatever the target held before:
  the first 0xFF is stored at index 0, the second takes the terminator branch, and the
  checksum test 0 + 0 + 0 + 0 = 0 succeeds.
\<close>

theorem terminator_on_empty_buffer:
  "rx_stream [0xFF, 0xFF] (rx_init\<lparr>target_x := x0, target_y := y0\<rparr>) =
     Inr (rx_init\<lparr>rx_data := 0xFF, rx_order := [0xFF, 0, 0, 0, 0, 0, 0, 0, 0],
                 last_data := 0xFF, pt := 1, target_x := 0, target_y := 0\<rparr>)"
  by (simp add: UART_0_rx_DataFrame_def rx_init_def)

subsection \<open>A whole frame\<close>

lemma rx_header:
  assumes "rx_wf s"
  shows "\<exists>s1. rx_stream [0xAA, 0xAA] s = Inr s1 \<and> pt s1 = 2 \<and> last_data s1 = 0xAA
            \<and> length (rx_order s1) = 9
            \<and> target_x s1 = target_x s \<and> target_y s1 = target_y s"
  using assms
  by (cases "last_data s = 0xAA")
     (simp_all add: rx_wf_def rx_step_sync rx_step_store marker_def)

lemma rx_payload:
  assumes "pt s = 2" "last_data s = 0xAA" "length (rx_order s) = 9"
      and "marker_free 0xAA [xh, xl, yh, yl, chk]"
  shows "\<exists>s2. rx_stream [xh, xl, yh, yl, chk] s = Inr s2 \<and> pt s2 = 7 \<and> last_data s2 = chk
            \<and> length (rx_order s2) = 9
            \<and> rx_order s2 ! 2 = xh \<and> rx_order s2 ! 3 = xl \<and> rx_order s2 ! 4 = yh
            \<and> rx_order s2 ! 5 = yl \<and> rx_order s2 ! 6 = chk
            \<and> target_x s2 = target_x s \<and> target_y s2 = target_y s"
  using assms
  by (simp add: rx_step_store)

lemma rx_terminator:
  assumes "pt s = 7" "length (rx_order s) = 9"
  shows "\<exists>s3. rx_stream [0xFF, 0xFF] s = Inr s3 \<and>
           (if uint (rx_order s ! 2) + uint (rx_order s ! 3) + uint (rx_order s ! 4)
                 + uint (rx_order s ! 5) = uint (rx_order s ! 6)
            then target_x s3 = coordinate (rx_order s ! 2) (rx_order s ! 3)
               \<and> target_y s3 = coordinate (rx_order s ! 4) (rx_order s ! 5)
            else target_x s3 = target_x s \<and> target_y s3 = target_y s)"
proof (cases "last_data s = 0xFF")
  case True
  with assms show ?thesis
    by (cases "uint (rx_order s ! 2) + uint (rx_order s ! 3) + uint (rx_order s ! 4)
                 + uint (rx_order s ! 5) = uint (rx_order s ! 6)")
       (simp_all add: UART_0_rx_DataFrame_def coordinate_def)
next
  case False
  with assms show ?thesis
    by (cases "uint (rx_order s ! 2) + uint (rx_order s ! 3) + uint (rx_order s ! 4)
                 + uint (rx_order s ! 5) = uint (rx_order s ! 6)")
       (simp_all add: UART_0_rx_DataFrame_def coordinate_def)
qed

text \<open>
  A frame whose payload bytes are all stored (none of them repeats a marker) ends with
  the five payload bytes in cells 2 to 6, and the terminator pair commits exactly when
  the integer sum of the four coordinate bytes equals the checksum byte.
\<close>

lemma rx_frame:
  assumes wf: "rx_wf s" and mf: "marker_free 0xAA [xh, xl, yh, yl, chk]"
  shows "committed (rx_stream (coord_frame xh xl yh yl chk) s) =
           (if uint xh + uint xl + uint yh + uint yl = uint chk
            then Some (coordinate xh xl, coordinate yh yl)
            else Some (target_x s, target_y s))"
proof -
  from rx_header [OF wf] obtain s1 where
    s1: "rx_stream [0xAA, 0xAA] s = Inr s1" "pt s1 = 2" "last_data s1 = 0xAA"
        "length (rx_order s1) = 9" "target_x s1 = target_x s" "target_y s1 = target_y s"
    by blast
  from rx_payload [OF s1(2) s1(3) s1(4) mf] obtain s2 where
    s2: "rx_stream [xh, xl, yh, yl, chk] s1 = Inr s2" "pt s2 = 7"
        "length (rx_order s2) = 9"
        "rx_order s2 ! 2 = xh" "rx_order s2 ! 3 = xl" "rx_order s2 ! 4 = yh"
        "rx_order s2 ! 5 = yl" "rx_order s2 ! 6 = chk"
        "target_x s2 = target_x s1" "target_y s2 = target_y s1"
    by blast
  from rx_terminator [OF s2(2) s2(3)] obtain s3 where
    s3: "rx_stream [0xFF, 0xFF] s2 = Inr s3"
        "if uint xh + uint xl + uint yh + uint yl = uint chk
         then target_x s3 = coordinate xh xl \<and> target_y s3 = coordinate yh yl
         else target_x s3 = target_x s2 \<and> target_y s3 = target_y s2"
    unfolding s2 by blast
  have parts: "coord_frame xh xl yh yl chk = [0xAA, 0xAA] @ [xh, xl, yh, yl, chk] @ [0xFF, 0xFF]"
    by (simp add: coord_frame_def)
  have "rx_stream (coord_frame xh xl yh yl chk) s =
          rx_stream ([xh, xl, yh, yl, chk] @ [0xFF, 0xFF]) s1"
    by (simp only: parts rx_stream_append s1(1) sum.case)
  also have "\<dots> = rx_stream [0xFF, 0xFF] s2"
    by (simp only: rx_stream_append s2(1) sum.case)
  finally have "rx_stream (coord_frame xh xl yh yl chk) s = Inr s3"
    by (simp only: s3(1))
  with s3(2) s2 s1 show ?thesis by (simp add: committed_def)
qed

lemma checksum_no_wrap:
  fixes xh xl yh yl :: u8
  assumes "uint xh + uint xl + uint yh + uint yl < 256"
  shows "uint (xh + xl + yh + yl) = uint xh + uint xl + uint yh + uint yl"
proof -
  have "uint (xh + xl + yh + yl) = (uint xh + uint xl + uint yh + uint yl) mod 256"
    by (simp add: uint_word_ariths mod_simps)
  with assms show ?thesis by simp
qed

lemma checksum_int_eq:
  fixes xh xl yh yl chk :: u8
  assumes "uint xh + uint xl + uint yh + uint yl = uint chk"
  shows "chk = xh + xl + yh + yl"
proof -
  have "word_of_int (uint chk) = (word_of_int (uint xh + uint xl + uint yh + uint yl) :: u8)"
    by (simp only: assms)
  then show ?thesis by simp
qed

text \<open>
  Claim C1, as amended. From any well-formed state, a frame
  0xAA 0xAA xh xl yh yl chk 0xFF 0xFF publishes (xh<<8 | xl, yh<<8 | yl) when
  (a) no payload byte repeats a marker byte right before it (xh is not 0xAA, and no two
  neighbours among xh, xl, yh, yl, chk are both 0xAA or both 0xFF), so that all five
  bytes are stored, and (b) the four coordinate bytes add up to at most 255, so that the
  checksum byte is their plain sum.
\<close>

theorem frame_commits:
  assumes "rx_wf s"
      and "marker_free 0xAA [xh, xl, yh, yl, chk]"
      and "uint xh + uint xl + uint yh + uint yl < 256"
      and "chk = xh + xl + yh + yl"
  shows "committed (rx_stream (coord_frame xh xl yh yl chk) s) =
           Some (coordinate xh xl, coordinate yh yl)"
  using rx_frame [OF assms(1) assms(2)] checksum_no_wrap [OF assms(3)] assms(4)
  by simp

theorem frame_commits_witness:
  "rx_wf rx_init \<and> marker_free 0xAA [0, 0x10, 0, 0x20, 0x30]
   \<and> uint (0 :: u8) + uint (0x10 :: u8) + uint (0 :: u8) + uint (0x20 :: u8) < 256
   \<and> (0x30 :: u8) = 0 + 0x10 + 0 + 0x20
   \<and> committed (rx_stream (coord_frame 0 0x10 0 0x20 0x30) rx_init) = Some (0x10, 0x20)"
proof -
  have h1: "rx_wf rx_init" by (rule rx_init_wf)
  have h2: "marker_free 0xAA [0, 0x10, 0, 0x20, 0x30]" by (simp add: marker_def)
  have h3: "uint (0 :: u8) + uint (0x10 :: u8) + uint (0 :: u8) + uint (0x20 :: u8) < 256"
    by simp
  have h4: "(0x30 :: u8) = 0 + 0x10 + 0 + 0x20" by simp
  have v: "coordinate 0 0x10 = 0x10" "coordinate 0 0x20 = 0x20"
    by (simp_all add: coordinate_def)
  have c: "committed (rx_stream (coord_frame 0 0x10 0 0x20 0x30) rx_init) = Some (0x10, 0x20)"
    using frame_commits [OF h1 h2 h3 h4] by (simp only: v)
  from h1 h2 h3 h4 c show ?thesis by (intro conjI)
qed

text \<open>
  Claim C1 as stated fails: the frame for x = 0, y = 170 has the checksum 0xAA, which
  repeats the low byte of y. The second 0xAA restarts the capture instead of being
  stored, and the terminator pair finds no matching checksum: nothing is committed.
\<close>

theorem frame_commits_counterexample:
  "(0xAA :: u8) = 0 + 0 + 0 + 0xAA
   \<and> committed (rx_stream (coord_frame 0 0 0 0xAA 0xAA) rx_init) = Some (0, 0)
   \<and> (coordinate 0 0, coordinate 0 0xAA) \<noteq> (0, 0)"
  by (simp add: committed_def coord_frame_def UART_0_rx_DataFrame_def rx_init_def
        coordinate_def)

text \<open>
  The frame of the specification's end-to-end scenario (x = 200, y = 150, checksum
  0x5E = 350 mod 256) is not committed either: the test compares the unreduced sum 350
  with the byte 94.
\<close>

lemma frame_sum_above_255_dropped:
  "(0x5E :: u8) = 0 + 0xC8 + 0 + 0x96
   \<and> committed (rx_stream (coord_frame 0 0xC8 0 0x96 0x5E) rx_init) = Some (0, 0)
   \<and> (coordinate 0 0xC8, coordinate 0 0x96) = (200, 150)"
  by (simp add: committed_def coord_frame_def UART_0_rx_DataFrame_def rx_init_def
        coordinate_def)

text \<open>
  Claim C4, as amended. From any well-formed state, a frame whose payload bytes are all
  stored (no payload byte repeats a marker byte right before it) and whose checksum byte
  differs from the sum modulo 256 of the four coordinate bytes leaves the published
  target as it was; the run ends normally, without a fault or any error value.
\<close>

theorem bad_checksum_no_commit:
  assumes "rx_wf s"
      and "marker_free 0xAA [xh, xl, yh, yl, chk]"
      and "chk \<noteq> xh + xl + yh + yl"
  shows "committed (rx_stream (coord_frame xh xl yh yl chk) s) =
           Some (target_x s, target_y s)"
proof -
  from assms(3) checksum_int_eq [of xh xl yh yl chk]
  have "uint xh + uint xl + uint yh + uint yl \<noteq> uint chk" by blast
  with rx_frame [OF assms(1) assms(2)] show ?thesis by simp
qed

theorem bad_checksum_no_commit_witness:
  "rx_wf (rx_init\<lparr>target_x := 7, target_y := 9\<rparr>)
   \<and> marker_free 0xAA [0, 0x10, 0, 0x20, 0x31]
   \<and> (0x31 :: u8) \<noteq> 0 + 0x10 + 0 + 0x20
   \<and> committed (rx_stream (coord_frame 0 0x10 0 0x20 0x31)
        (rx_init\<lparr>target_x := 7, target_y := 9\<rparr>)) = Some (7, 9)"
proof -
  have h1: "rx_wf (rx_init\<lparr>target_x := 7, target_y := 9\<rparr>)"
    by (simp add: rx_wf_def rx_init_def)
  have h2: "marker_free 0xAA [0, 0x10, 0, 0x20, 0x31]" by (simp add: marker_def)
  have h3: "(0x31 :: u8) \<noteq> 0 + 0x10 + 0 + 0x20" by simp
  have v: "target_x (rx_init\<lparr>target_x := 7, target_y := 9\<rparr>) = 7"
          "target_y (rx_init\<lparr>target_x := 7, target_y := 9\<rparr>) = 9"
    by simp_all
  have c: "committed (rx_stream (coord_frame 0 0x10 0 0x20 0x31)
             (rx_init\<lparr>target_x := 7, target_y := 9\<rparr>)) = Some (7, 9)"
    using bad_checksum_no_commit [OF h1 h2 h3] by (simp only: v)
  from h1 h2 h3 c show ?thesis by (intro conjI)
qed

text \<open>
  Claim C4 as stated fails: in the frame 0xAA 0xAA 0xFF 0xFF 0x00 0x00 0x00 0xFF 0xFF
  (x = 0xFFFF, y = 0, checksum 0x00 instead of 0xFE) the second 0xFF of x is taken for a
  terminator and not stored, the rest of the payload lands one cell early, and the
  terminating pair commits (0xFF00, 0) although the target was (0, 0) before it.
\<close>

theorem bad_checksum_no_commit_counterexample:
  "(0 :: u8) \<noteq> 0xFF + 0xFF + 0 + 0
   \<and> committed (rx_stream [0xAA, 0xAA, 0xFF, 0xFF, 0, 0, 0] rx_init) = Some (0, 0)
   \<and> committed (rx_stream (coord_frame 0xFF 0xFF 0 0 0) rx_init) = Some (0xFF00, 0)"
  by (simp add: committed_def coord_frame_def UART_0_rx_DataFrame_def rx_init_def)

section \<open>Initialization handshake: properties\<close>

lemma time_suc: "unat (time :: u8) < 255 \<Longrightarrow> unat (time + 1) = Suc (unat time)"
  by (simp add: unat_word_ariths)

lemma K230_Init_loop_done: "K230_Init_loop 0x1B time u = Some (1, u)"
  by (simp add: K230_Init_loop.simps)

lemma K230_Init_loop_expired:
  "data \<noteq> 0x1B \<Longrightarrow> unat time = 255 \<Longrightarrow> K230_Init_loop data time u = Some (0, u)"
  by (simp add: K230_Init_loop.simps TIME_OUT_def)

lemma K230_Init_loop_read:
  "data \<noteq> 0x1B \<Longrightarrow> unat time < 255 \<Longrightarrow> rx u = p # ps \<Longrightarrow>
   K230_Init_loop data time u = K230_Init_loop p (time + 1) (u\<lparr>rx := ps\<rparr>)"
  by (simp add: K230_Init_loop.simps [of data] TIME_OUT_def
        DL_UART_Main_receiveDataBlocking_def)

lemma K230_Init_loop_blocked:
  "data \<noteq> 0x1B \<Longrightarrow> unat time < 255 \<Longrightarrow> rx u = [] \<Longrightarrow>
   K230_Init_loop data time u = None"
  by (simp add: K230_Init_loop.simps [of data] TIME_OUT_def
        DL_UART_Main_receiveDataBlocking_def)

text \<open>The acknowledgment arrives before the retry count is used up.\<close>

lemma K230_Init_loop_ack:
  "0x1B \<notin> set pre \<Longrightarrow> unat time + length pre < 255 \<Longrightarrow> data \<noteq> 0x1B \<Longrightarrow>
   rx u = pre @ 0x1B # rest \<Longrightarrow>
   K230_Init_loop data time u = Some (1, u\<lparr>rx := rest\<rparr>)"
proof (induction pre arbitrary: data time u)
  case Nil
  then show ?case by (simp add: K230_Init_loop_read K230_Init_loop_done)
next
  case (Cons p ps)
  from Cons.prems have t: "unat time < 255" by simp
  from Cons.prems have p: "p \<noteq> 0x1B" "0x1B \<notin> set ps" by auto
  have "K230_Init_loop data time u =
          K230_Init_loop p (time + 1) (u\<lparr>rx := ps @ 0x1B # rest\<rparr>)"
    using Cons.prems t by (simp add: K230_Init_loop_read)
  also have "\<dots> = Some (1, u\<lparr>rx := ps @ 0x1B # rest\<rparr>\<lparr>rx := rest\<rparr>)"
    using Cons.prems time_suc [OF t] by (intro Cons.IH [OF p(2) _ p(1)]) simp_all
  finally show ?case by simp
qed

text \<open>The retry count is used up: 255 bytes were read and none was the acknowledgment.\<close>

lemma K230_Init_loop_timeout:
  "0x1B \<notin> set pre \<Longrightarrow> unat time + length pre = 255 \<Longrightarrow> data \<noteq> 0x1B \<Longrightarrow>
   rx u = pre @ rest \<Longrightarrow>
   K230_Init_loop data time u = Some (0, u\<lparr>rx := rest\<rparr>)"
proof (induction pre arbitrary: data time u)
  case Nil
  then show ?case by (simp add: K230_Init_loop_expired)
next
  case (Cons p ps)
  from Cons.prems have t: "unat time < 255" by simp
  from Cons.prems have p: "p \<noteq> 0x1B" "0x1B \<notin> set ps" by auto
  have "K230_Init_loop data time u = K230_Init_loop p (time + 1) (u\<lparr>rx := ps @ rest\<rparr>)"
    using Cons.prems t by (simp add: K230_Init_loop_read)
  also have "\<dots> = Some (0, u\<lparr>rx := ps @ rest\<rparr>\<lparr>rx := rest\<rparr>)"
    using Cons.prems time_suc [OF t] by (intro Cons.IH [OF p(2) _ p(1)]) simp_all
  finally show ?case by simp
qed

text \<open>The line goes silent before either: the blocking receive never returns.\<close>

lemma K230_Init_loop_starved:
  "0x1B \<notin> set pre \<Longrightarrow> unat time + length pre < 255 \<Longrightarrow> data \<noteq> 0x1B \<Longrightarrow>
   rx u = pre \<Longrightarrow> K230_Init_loop data time u = None"
proof (induction pre arbitrary: data time u)
  case Nil
  then show ?case by (simp add: K230_Init_loop_blocked)
next
  case (Cons p ps)
  from Cons.prems have t: "unat time < 255" by simp
  from Cons.prems have p: "p \<noteq> 0x1B" "0x1B \<notin> set ps" by auto
  have "K230_Init_loop data time u = K230_Init_loop p (time + 1) (u\<lparr>rx := ps\<rparr>)"
    using Cons.prems t by (simp add: K230_Init_loop_read)
  also have "\<dots> = None"
    using Cons.prems time_suc [OF t] by (intro Cons.IH [OF p(2) _ p(1)]) simp_all
  finally show ?case by simp
qed

text \<open>However the run ends, it has taken at most 255 bytes from the line.\<close>

lemma K230_Init_loop_bounded:
  "K230_Init_loop data time u = Some (r, u') \<Longrightarrow>
   (r = 0 \<or> r = 1) \<and> (\<exists>n. n + unat time \<le> 255 \<and> rx u' = drop n (rx u)) \<and> tx u' = tx u"
proof (induction data time u rule: K230_Init_loop.induct)
  case (1 data time u)
  have tmax: "unat time \<le> 255"
    using unsigned_less [of time, where ?'a = nat] by simp
  show ?case
  proof (cases "data = 0x1B")
    case True
    with "1.prems" tmax show ?thesis
      by (auto simp: K230_Init_loop_done intro: exI [of _ 0])
  next
    case ndata: False
    show ?thesis
    proof (cases "unat time = 255")
      case True
      with "1.prems" ndata show ?thesis
        by (auto simp: K230_Init_loop_expired intro: exI [of _ 0])
    next
      case False
      with tmax have t: "unat time < 255" by simp
      show ?thesis
      proof (cases "rx u")
        case Nil
        with "1.prems" ndata t show ?thesis by (simp add: K230_Init_loop_blocked)
      next
        case (Cons b bs)
        have rcv: "DL_UART_Main_receiveDataBlocking u = Some (b, u\<lparr>rx := bs\<rparr>)"
          using Cons by (simp add: DL_UART_Main_receiveDataBlocking_def)
        have rec: "K230_Init_loop b (time + 1) (u\<lparr>rx := bs\<rparr>) = Some (r, u')"
          using "1.prems" K230_Init_loop_read [OF ndata t Cons] by simp
        have nt: "\<not> TIME_OUT \<le> unat time" using t by (simp add: TIME_OUT_def)
        from "1.IH" [OF ndata nt rcv refl rec]
        obtain n where n: "r = 0 \<or> r = 1" "n + unat (time + 1) \<le> 255"
            "rx u' = drop n bs" "tx u' = tx u"
          by auto
        have "Suc n + unat time \<le> 255" using n(2) time_suc [OF t] by simp
        moreover have "rx u' = drop (Suc n) (rx u)" using n(3) Cons by simp
        ultimately show ?thesis using n(1) n(4) by blast
      qed
    qed
  qed
qed

text \<open>
  Claim C7. \<open>K230_Init\<close> sends the self-check command and then
  (a) returns 1 as soon as the byte 0x1B arrives, if it is among the first 255 bytes
  received, having read nothing beyond it;
  (b) returns 0 once 255 bytes have been received and none was 0x1B, leaving any
  further byte unread;
  (c) whenever it returns, the value is 0 or 1 and at most 255 bytes were taken from
  the line: it never retries beyond TIME_OUT received bytes.
\<close>

theorem K230_Init_handshake:
  fixes u :: "'a uart_scheme"
  shows "(0x1B \<notin> set pre \<and> length pre < 255 \<and> rx u = pre @ 0x1B # rest \<longrightarrow>
            K230_Init u = Some (1, u\<lparr>rx := rest, tx := tx u @ [SELF_CHECK_CMD]\<rparr>))
       \<and> (0x1B \<notin> set pre \<and> length pre = TIME_OUT \<and> rx u = pre @ rest \<longrightarrow>
            K230_Init u = Some (0, u\<lparr>rx := rest, tx := tx u @ [SELF_CHECK_CMD]\<rparr>))
       \<and> (K230_Init u = Some (r, u') \<longrightarrow>
            (r = 0 \<or> r = 1) \<and> (\<exists>n\<le>TIME_OUT. rx u' = drop n (rx u)))"
proof (intro conjI impI)
  assume a: "0x1B \<notin> set pre \<and> length pre < 255 \<and> rx u = pre @ 0x1B # rest"
  then have "rx (DL_UART_Main_transmitData SELF_CHECK_CMD u) = pre @ 0x1B # rest"
    by (simp add: DL_UART_Main_transmitData_def)
  from K230_Init_loop_ack [OF _ _ _ this, of 0 0] a
  show "K230_Init u = Some (1, u\<lparr>rx := rest, tx := tx u @ [SELF_CHECK_CMD]\<rparr>)"
    by (simp add: K230_Init_def DL_UART_Main_transmitData_def)
next
  assume b: "0x1B \<notin> set pre \<and> length pre = TIME_OUT \<and> rx u = pre @ rest"
  then have "rx (DL_UART_Main_transmitData SELF_CHECK_CMD u) = pre @ rest"
    by (simp add: DL_UART_Main_transmitData_def)
  from K230_Init_loop_timeout [OF _ _ _ this, of 0 0] b
  show "K230_Init u = Some (0, u\<lparr>rx := rest, tx := tx u @ [SELF_CHECK_CMD]\<rparr>)"
    by (simp add: K230_Init_def DL_UART_Main_transmitData_def TIME_OUT_def)
next
  assume c: "K230_Init u = Some (r, u')"
  from K230_Init_loop_bounded [OF c [unfolded K230_Init_def]]
  show "r = 0 \<or> r = 1" by blast
next
  assume c: "K230_Init u = Some (r, u')"
  from K230_Init_loop_bounded [OF c [unfolded K230_Init_def]]
  obtain n where "n \<le> 255" "rx u' = drop n (rx (DL_UART_Main_transmitData SELF_CHECK_CMD u))"
    by auto
  then show "\<exists>n\<le>TIME_OUT. rx u' = drop n (rx u)"
    by (auto simp: DL_UART_Main_transmitData_def TIME_OUT_def)
qed

theorem K230_Init_handshake_witness:
  "(0x1B \<notin> set [0 :: u8] \<and> length [0 :: u8] < 255
      \<and> rx \<lparr>rx = [0, 0x1B, 7], tx = []\<rparr> = [0] @ 0x1B # [7])
   \<and> K230_Init \<lparr>rx = [0, 0x1B, 7], tx = []\<rparr> = Some (1, \<lparr>rx = [7], tx = [0x1A]\<rparr>)
   \<and> (0x1B \<notin> set (replicate 255 (0 :: u8)) \<and> length (replicate 255 (0 :: u8)) = TIME_OUT
      \<and> rx \<lparr>rx = replicate 255 0 @ [0x1B], tx = []\<rparr> = replicate 255 0 @ [0x1B])
   \<and> K230_Init \<lparr>rx = replicate 255 0 @ [0x1B], tx = []\<rparr>
         = Some (0, \<lparr>rx = [0x1B], tx = [0x1A]\<rparr>)
   \<and> (\<exists>n\<le>TIME_OUT. rx \<lparr>rx = [7], tx = [0x1A]\<rparr> = drop n (rx \<lparr>rx = [0, 0x1B, 7], tx = []\<rparr>))"
proof -
  have a: "0x1B \<notin> set [0 :: u8] \<and> length [0 :: u8] < 255
      \<and> rx \<lparr>rx = [0, 0x1B, 7], tx = []\<rparr> = [0] @ 0x1B # [7]"
    by simp
  have b: "0x1B \<notin> set (replicate 255 (0 :: u8)) \<and> length (replicate 255 (0 :: u8)) = TIME_OUT
      \<and> rx \<lparr>rx = replicate 255 0 @ [0x1B], tx = []\<rparr> = replicate 255 0 @ [0x1B]"
    by (simp add: TIME_OUT_def)
  have c: "K230_Init \<lparr>rx = [0, 0x1B, 7], tx = []\<rparr> = Some (1, \<lparr>rx = [7], tx = [0x1A]\<rparr>)"
    using K230_Init_handshake [where pre = "[0]" and rest = "[7]"
        and u = "\<lparr>rx = [0, 0x1B, 7], tx = []\<rparr>"] a
    by (simp add: SELF_CHECK_CMD_def)
  moreover
  have "K230_Init \<lparr>rx = replicate 255 0 @ [0x1B], tx = []\<rparr>
          = Some (0, \<lparr>rx = [0x1B], tx = [0x1A]\<rparr>)"
    using K230_Init_handshake [where pre = "replicate 255 0" and rest = "[0x1B]"
        and u = "\<lparr>rx = replicate 255 0 @ [0x1B], tx = []\<rparr>"] b
    by (simp add: SELF_CHECK_CMD_def)
  moreover
  have "\<exists>n\<le>TIME_OUT. rx \<lparr>rx = [7], tx = [0x1A]\<rparr> = drop n (rx \<lparr>rx = [0, 0x1B, 7], tx = []\<rparr>)"
    using K230_Init_handshake [where u = "\<lparr>rx = [0, 0x1B, 7], tx = []\<rparr>" and r = 1
        and u' = "\<lparr>rx = [7], tx = [0x1A]\<rparr>"] c
    by blast
  ultimately show ?thesis using a b c by blast
qed

section \<open>Command/response exchange: properties\<close>

lemma ends_END12_append: "ends_END12 (a # b # seg @ [END1, END2])"
  by (induction seg arbitrary: a b) simp_all

lemma no_terminator_Cons:
  "a \<noteq> END1 \<Longrightarrow> no_terminator bs \<Longrightarrow> no_terminator (a # bs)"
  by (cases bs rule: no_terminator.cases) simp_all

lemma no_terminator_zeros:
  "no_terminator bs \<Longrightarrow> no_terminator (0 # 0 # bs)"
  by (intro no_terminator_Cons) (simp_all add: END1_def)

lemma i_suc: "unat (i :: u8) < 128 \<Longrightarrow> unat (i + 1) = Suc (unat i)"
  by (simp add: unat_word_ariths)

lemma K230_cmd_segment_exit:
  "K230_cmd_segment END3 END2 END1 i data u = Some (Inr (data, u))"
  by (simp add: K230_cmd_segment.simps)

lemma K230_cmd_segment_store:
  "\<not> (temp = END3 \<and> l = END2 \<and> ll = END1) \<Longrightarrow> unat i < 128 \<Longrightarrow> rx u = t # bs \<Longrightarrow>
   K230_cmd_segment temp l ll i data u =
     K230_cmd_segment t temp l (i + 1) (data[unat i := temp]) (u\<lparr>rx := bs\<rparr>)"
  by (simp add: K230_cmd_segment.simps [of temp l ll] DL_UART_Main_receiveDataBlocking_def)

lemma store_prefix:
  "n < length data \<Longrightarrow>
   take (Suc n) (data[n := t]) @ ts @ drop (Suc n + length ts) (data[n := t]) =
   take n data @ (t # ts) @ drop (n + length (t # ts)) data"
  by (simp add: take_Suc_conv_app_nth)

lemma K230_cmd_segment_run:
  "temp # bs = todo @ [END3] \<Longrightarrow> no_terminator (ll # l # todo) \<Longrightarrow>
   ends_END12 (ll # l # todo) \<Longrightarrow> unat i + length todo \<le> 128 \<Longrightarrow> length data = 128 \<Longrightarrow>
   rx u = bs @ rest \<Longrightarrow>
   K230_cmd_segment temp l ll i data u =
     Some (Inr (take (unat i) data @ todo @ drop (unat i + length todo) data, u\<lparr>rx := rest\<rparr>))"
proof (induction todo arbitrary: temp bs ll l i data u)
  case Nil
  then have "temp = END3" "bs = []" "ll = END1" "l = END2" by simp_all
  with Nil show ?case by (simp add: K230_cmd_segment_exit)
next
  case (Cons t ts)
  from Cons.prems(1) have temp: "temp = t" and bs: "bs = ts @ [END3]" by simp_all
  from Cons.prems(2) have nomatch: "\<not> (temp = END3 \<and> l = END2 \<and> ll = END1)"
    and nt: "no_terminator (l # t # ts)"
    by (auto simp: temp)
  from Cons.prems(3) have e12: "ends_END12 (l # t # ts)" by simp
  from Cons.prems(4) have i: "unat i < 128" by simp
  obtain t' bs' where next_byte: "ts @ [END3] = t' # bs'"
    by (cases "ts @ [END3]") simp_all
  have rx: "rx u = t' # (bs' @ rest)" using Cons.prems(6) bs next_byte by simp
  have "K230_cmd_segment temp l ll i data u =
          K230_cmd_segment t' t l (i + 1) (data[unat i := t]) (u\<lparr>rx := bs' @ rest\<rparr>)"
    using K230_cmd_segment_store [OF nomatch i rx] by (simp add: temp)
  also have "\<dots> = Some (Inr (take (unat (i + 1)) (data[unat i := t]) @ ts
                @ drop (unat (i + 1) + length ts) (data[unat i := t]),
              u\<lparr>rx := bs' @ rest\<rparr>\<lparr>rx := rest\<rparr>))"
    using Cons.prems(4,5) i_suc [OF i] next_byte
    by (intro Cons.IH [OF _ nt e12]) simp_all
  also have "take (unat (i + 1)) (data[unat i := t]) @ ts
                @ drop (unat (i + 1) + length ts) (data[unat i := t])
             = take (unat i) data @ (t # ts) @ drop (unat i + length (t # ts)) data"
    using store_prefix [of "unat i" data t ts] i Cons.prems(5) by (simp add: i_suc [OF i])
  finally show ?case by simp
qed

lemma K230_cmd_segment_read:
  assumes "no_terminator (seg @ [END1, END2])" "length seg + 2 \<le> 128" "length data = 128"
      and "temp # bs = seg @ [END1, END2, END3]" "rx u = bs @ rest"
  shows "K230_cmd_segment temp 0 0 0 data u =
           Some (Inr (fill_buffer (seg @ [END1, END2]) data, u\<lparr>rx := rest\<rparr>))"
proof -
  have "K230_cmd_segment temp 0 0 0 data u =
          Some (Inr (take (unat (0 :: u8)) data @ (seg @ [END1, END2])
                  @ drop (unat (0 :: u8) + length (seg @ [END1, END2])) data, u\<lparr>rx := rest\<rparr>))"
    using assms
    by (intro K230_cmd_segment_run no_terminator_zeros ends_END12_append) simp_all
  then show ?thesis by (simp add: fill_buffer_def)
qed

lemma K230_cmd_loop_exit: "K230_cmd_loop func 0 data u = Some (Inr (data, u))"
  by (simp add: K230_cmd_loop.simps)

lemma K230_cmd_loop_iteration:
  assumes "loop_flag \<noteq> 0" "rx u = ack # seg @ [END1, END2, END3] @ rest"
      and "no_terminator (seg @ [END1, END2])" "length seg + 2 \<le> 128" "length data = 128"
  shows "K230_cmd_loop func loop_flag data u =
           (case func (fill_buffer (seg @ [END1, END2]) data) (u\<lparr>rx := rest\<rparr>) of
              None \<Rightarrow> None
            | Some (loop_flag', data', u') \<Rightarrow> K230_cmd_loop func loop_flag' data' u')"
proof -
  obtain temp bs where tb: "seg @ [END1, END2, END3] = temp # bs"
    by (cases "seg @ [END1, END2, END3]") simp_all
  have r1: "DL_UART_Main_receiveDataBlocking u = Some (ack, u\<lparr>rx := temp # bs @ rest\<rparr>)"
    using assms(2) tb by (simp add: DL_UART_Main_receiveDataBlocking_def)
  have r2: "DL_UART_Main_receiveDataBlocking (u\<lparr>rx := temp # bs @ rest\<rparr>)
              = Some (temp, u\<lparr>rx := bs @ rest\<rparr>)"
    by (simp add: DL_UART_Main_receiveDataBlocking_def)
  have seg: "K230_cmd_segment temp 0 0 0 data (u\<lparr>rx := bs @ rest\<rparr>) =
               Some (Inr (fill_buffer (seg @ [END1, END2]) data, u\<lparr>rx := rest\<rparr>))"
    using K230_cmd_segment_read [OF assms(3,4,5) tb [symmetric], of "u\<lparr>rx := bs @ rest\<rparr>" rest]
    by simp
  show ?thesis
    using assms(1) by (subst K230_cmd_loop.simps) (simp add: r1 r2 seg)
qed

lemma K230_exchange_loop:
  "K230_exchange func data u data' u' \<Longrightarrow> length data = 128 \<Longrightarrow> loop_flag \<noteq> 0 \<Longrightarrow>
   K230_cmd_loop func loop_flag data u = Some (Inr (data', u'))"
proof (induction arbitrary: loop_flag rule: K230_exchange.induct)
  case (last_segment u ack seg rest data data' u')
  then show ?case
    by (simp add: K230_cmd_loop_iteration [where ack = ack and seg = seg and rest = rest]
          K230_cmd_loop_exit)
next
  case (next_segment u ack seg rest data flag data' u' data'' u'')
  then show ?case
    by (simp add: K230_cmd_loop_iteration [where ack = ack and seg = seg and rest = rest])
qed

text \<open>
  Claim C8. For every command byte and handler, \<open>K230_cmd\<close> sends the command and
  then carries out the exchange of the specification: it reads segments delimited by the
  terminator 0x01 0xFE 0xFF, invokes the handler once per completed segment, reads
  another segment exactly when the handler returned a nonzero flag, and on the first
  zero flag leaves the loop and transmits the stop command 0x1C. (Segments that fit the
  128-byte array: the payload and the first two terminator bytes are stored.)
\<close>

theorem K230_cmd_exchange:
  assumes "K230_exchange func data0 (DL_UART_Main_transmitData cmd u) data' u'"
      and "length data0 = 128"
  shows "K230_cmd cmd func data0 u = Some (Inr (DL_UART_Main_transmitData STOP_CMD u'))"
  using K230_exchange_loop [OF assms, of 1] by (simp add: K230_cmd_def)

theorem K230_cmd_exchange_witness:
  "length (replicate 128 (0 :: u8)) = 128
   \<and> K230_cmd 0x30
        (\<lambda>d u. Some (if d ! 0 = 1 then 1 else 0, d, DL_UART_Main_transmitData (d ! 0) u))
        (replicate 128 0)
        \<lparr>rx = [6, 1, 2, 3, 0x01, 0xFE, 0xFF, 7, 5, 0x01, 0xFE, 0xFF, 9], tx = []\<rparr>
       = Some (Inr \<lparr>rx = [9], tx = [0x30, 1, 5, 0x1C]\<rparr>)"
proof -
  define h :: "unit handler"
    where "h = (\<lambda>d u. Some (if d ! 0 = 1 then 1 else 0, d, DL_UART_Main_transmitData (d ! 0) u))"
  define d0 :: "u8 list" where "d0 = replicate 128 0"
  define d1 where "d1 = fill_buffer ([1, 2, 3] @ [END1, END2]) d0"
  define d2 where "d2 = fill_buffer ([5] @ [END1, END2]) d1"
  have len0: "length d0 = 128" by (simp add: d0_def)
  have len1: "length d1 = 128" by (simp add: d1_def d0_def fill_buffer_def)
  have second: "K230_exchange h d1 \<lparr>rx = [7, 5, 0x01, 0xFE, 0xFF, 9], tx = [0x30, 1]\<rparr>
                  d2 \<lparr>rx = [9], tx = [0x30, 1, 5]\<rparr>"
    by (rule K230_exchange.last_segment [where ack = 7 and seg = "[5]" and rest = "[9]"])
       (simp_all add: END1_def END2_def END3_def h_def fill_buffer_def
          DL_UART_Main_transmitData_def d2_def)
  have first: "K230_exchange h d0
                 (DL_UART_Main_transmitData 0x30
                    \<lparr>rx = [6, 1, 2, 3, 0x01, 0xFE, 0xFF, 7, 5, 0x01, 0xFE, 0xFF, 9], tx = []\<rparr>)
                 d2 \<lparr>rx = [9], tx = [0x30, 1, 5]\<rparr>"
    by (rule K230_exchange.next_segment [where ack = 6 and seg = "[1, 2, 3]"
            and rest = "[7, 5, 0x01, 0xFE, 0xFF, 9]" and flag = 1 and data' = d1
            and u' = "\<lparr>rx = [7, 5, 0x01, 0xFE, 0xFF, 9], tx = [0x30, 1]\<rparr>", OF _ _ _ _ _ len1 second])
       (simp_all add: END1_def END2_def END3_def h_def fill_buffer_def
          DL_UART_Main_transmitData_def d1_def)
  have "K230_cmd 0x30 h d0
          \<lparr>rx = [6, 1, 2, 3, 0x01, 0xFE, 0xFF, 7, 5, 0x01, 0xFE, 0xFF, 9], tx = []\<rparr>
        = Some (Inr (DL_UART_Main_transmitData STOP_CMD \<lparr>rx = [9], tx = [0x30, 1, 5]\<rparr>))"
    by (rule K230_cmd_exchange [OF first len0])
  then show ?thesis
    by (simp add: h_def d0_def DL_UART_Main_transmitData_def STOP_CMD_def)
qed

section \<open>Single-precision values: properties\<close>

text \<open>
  Rounding evaluated at a given real: with the bit length \<open>b\<close> of the magnitude, the
  weight \<open>s\<close> of the last kept bit and the rounded significand \<open>m\<close>.
\<close>

lemma round32_eval:
  assumes "bitlen \<lfloor>\<bar>x\<bar> * 2 ^ 149\<rfloor> = b"
      and "s = nat (min 253 (max 0 (b - 24)))"
      and "round_half_even (\<bar>x\<bar> * 2 ^ 149 / 2 ^ s) = m"
  shows "round32 x =
           (if (2 :: real) ^ 128 \<le> of_int m * 2 ^ s / 2 ^ 149
            then (if x < 0 then NInf else PInf)
            else Fin (if x < 0 then - (of_int m * 2 ^ s / 2 ^ 149)
                      else of_int m * 2 ^ s / 2 ^ 149))"
  unfolding round32_def Let_def assms(1) assms(2) [symmetric] assms(3) ..













subsection \<open>The operations at the values used below\<close>

lemma int_to_float_24: "int_to_float 24 = Fin 24"
  unfolding int_to_float_def of_int_numeral
  by (subst round32_eval [where b = 154 and s = 130 and m = 12582912])
     (simp_all add: compute_bitlen round_half_even_def Let_def)

lemma int_to_float_72: "int_to_float 72 = Fin 72"
  unfolding int_to_float_def of_int_numeral
  by (subst round32_eval [where b = 156 and s = 132 and m = 9437184])
     (simp_all add: compute_bitlen round_half_even_def Let_def)



lemma representable_27_2: "representable (27 / 2)"
  unfolding representable_def
  by (subst round32_eval [where b = 153 and s = 129 and m = 14155776])
     (simp_all add: compute_bitlen round_half_even_def Let_def)

lemma representable_513_2: "representable (513 / 2)"
  unfolding representable_def
  by (subst round32_eval [where b = 158 and s = 134 and m = 8404992])
     (simp_all add: compute_bitlen round_half_even_def Let_def)




lemma fsub_90_9: "fsub (Fin 90) (Fin 9) = Fin 81"
  unfolding fsub_def fneg.simps fadd.simps
  by (subst round32_eval [where b = 156 and s = 132 and m = 10616832])
     (simp_all add: compute_bitlen round_half_even_def Let_def)

lemma fmul_81_72: "fmul (Fin 81) (Fin 72) = Fin 5832"
  unfolding fmul.simps
  by (subst round32_eval [where b = 162 and s = 138 and m = 11943936])
     (simp_all add: compute_bitlen round_half_even_def Let_def)

lemma fsub_171_9: "fsub (Fin 171) (Fin 9) = Fin 162"
  unfolding fsub_def fneg.simps fadd.simps
  by (subst round32_eval [where b = 157 and s = 133 and m = 10616832])
     (simp_all add: compute_bitlen round_half_even_def Let_def)

lemma fdiv_5832_162: "fdiv (Fin 5832) (Fin 162) = Fin 36"
  unfolding fdiv.simps
  by (subst round32_eval [where b = 155 and s = 131 and m = 9437184])
     (simp_all add: compute_bitlen round_half_even_def Let_def)

lemma fadd_24_36: "fadd (Fin 24) (Fin 36) = Fin 60"
  unfolding fadd.simps
  by (subst round32_eval [where b = 155 and s = 131 and m = 15728640])
     (simp_all add: compute_bitlen round_half_even_def Let_def)

lemma fadd_60_half: "fadd (Fin 60) (Fin (1 / 2)) = Fin (121 / 2)"
  unfolding fadd.simps
  by (subst round32_eval [where b = 155 and s = 131 and m = 15859712])
     (simp_all add: compute_bitlen round_half_even_def Let_def)





















lemma fsub_120_0: "fsub (Fin 120) (Fin 0) = Fin 120"
  unfolding fsub_def fneg.simps fadd.simps
  by (subst round32_eval [where b = 156 and s = 132 and m = 15728640])
     (simp_all add: compute_bitlen round_half_even_def Let_def)

section \<open>PID controller: properties\<close>

lemma clamp_cases:
  "lo \<le> hi \<Longrightarrow> clamp x lo hi = (if x < lo then lo else if x > hi then hi else x)"
  by (simp add: clamp_def max_def min_def)


subsection \<open>The limits in single precision\<close>











section \<open>Servo driver: properties\<close>

text \<open>The duty computation with its two converted constants written out.\<close>

lemma Angle_To_PWM_unfold:
  "Angle_To_PWM angle min_angle max_angle =
     float_to_uint16
       (fadd (fadd (Fin 24)
                (fdiv (fmul (fsub (Clamp_Angle angle min_angle max_angle) min_angle) (Fin 72))
                      (fsub max_angle min_angle)))
             (Fin (1 / 2)))"
  by (simp add: Angle_To_PWM_def Let_def SERVO_PWM_MIN_def SERVO_PWM_MAX_def
        int_to_float_24 int_to_float_72)










lemma duty_90: "Angle_To_PWM (Fin 90) SERVO1_MIN_ANGLE SERVO1_MAX_ANGLE = Some 60"
proof -
  have c: "Clamp_Angle (Fin 90) (Fin 9) (Fin 171) = Fin 90"
    by (simp add: Clamp_Angle_def fgt_def)
  have "float_to_uint16 (Fin (121 / 2)) = Some 60" by simp
  then show ?thesis
    by (simp only: SERVO1_MIN_ANGLE_def SERVO1_MAX_ANGLE_def Angle_To_PWM_unfold c
          fsub_90_9 fmul_81_72 fsub_171_9 fdiv_5832_162 fadd_24_36 fadd_60_half)
qed

lemma Clamp_Angle_NaN: "Clamp_Angle NaN min_angle max_angle = NaN"
  by (cases max_angle) (simp_all add: Clamp_Angle_def fgt_def)

lemma duty_NaN: "Angle_To_PWM NaN min_angle max_angle = None"
  by (simp add: Angle_To_PWM_unfold Clamp_Angle_NaN fsub_def)




subsection \<open>The order of the timer write and the limitation\<close>

lemma Servo_Limitation_range:
  "24 \<le> Servo_Target1 (Servo_Limitation s) \<and> Servo_Target1 (Servo_Limitation s) \<le> 96
   \<and> 24 \<le> Servo_Target2 (Servo_Limitation s) \<and> Servo_Target2 (Servo_Limitation s) \<le> 96
   \<and> timer_writes (Servo_Limitation s) = timer_writes s"
  by (simp add: Servo_Limitation_def Let_def word_le_def word_less_def not_less)

text \<open>
  Claim C2, the code evaluated. From the initial targets (0, 0), \<open>Set_Servo_Angle\<close>
  for axis 1 and 90 degrees: the \<open>if\<close> has stored and written the duty 60 while
  \<open>Servo_Target2\<close> is still 0, outside [24, 96]; \<open>Servo_Limitation\<close>, called
  afterwards, sets \<open>Servo_Target2\<close> to 24 and writes nothing, so the limited value
  never reaches the timer, and what the timer received was the local \<open>PWM_value\<close>.
  For a NaN angle \<open>Clamp_Angle\<close> returns NaN (both comparisons are false) and the
  cast to \<open>uint16_t\<close> is undefined: no bound holds for the value written.
\<close>

theorem Set_Servo_Angle_writes_before_limitation:
  "Set_Servo_Angle_drive 1 (Fin 90) servo_init =
     Some \<lparr>Servo_Target1 = 60, Servo_Target2 = 0,
           timer_writes = [(DL_TIMER_CC_0_INDEX, 60)]\<rparr>
   \<and> \<not> 24 \<le> (0 :: u16)
   \<and> Set_Servo_Angle 1 (Fin 90) servo_init =
     Some \<lparr>Servo_Target1 = 60, Servo_Target2 = 24,
           timer_writes = [(DL_TIMER_CC_0_INDEX, 60)]\<rparr>
   \<and> Clamp_Angle NaN SERVO1_MIN_ANGLE SERVO1_MAX_ANGLE = NaN
   \<and> Clamp_Angle NaN SERVO2_MIN_ANGLE SERVO2_MAX_ANGLE = NaN
   \<and> Set_Servo_Angle 1 NaN servo_init = None
   \<and> Set_Servo_Angle 2 NaN servo_init = None"
  by (simp add: Set_Servo_Angle_def Set_Servo_Angle_drive_def duty_90 duty_NaN servo_init_def
        DL_Timer_setCaptureCompareValue_def Servo_Limitation_def Clamp_Angle_NaN)

end
